theory Spec2Isabelle
  imports Main
begin

section \<open>Data model\<close>

text \<open>
  The objects the view \<^verbatim>\<open>todo/views/task_detail.py\<close> works on. A user carries the
  flags and the group membership the permission checks read; a task carries its owning
  list (\<^verbatim>\<open>task.task_list\<close>, with \<^verbatim>\<open>id\<close>, \<^verbatim>\<open>slug\<close> and \<^verbatim>\<open>group\<close>) and the optional
  merge-target reference of the data model.
\<close>

record user =
  user_id :: nat
  is_authenticated :: bool
  is_staff :: bool
  is_superuser :: bool
  groups :: "nat list"

record tasklist =
  list_id :: nat
  slug :: string
  group :: nat

record task =
  task_id :: nat
  title :: string
  note_text :: string
  due_date :: "nat option"
  completed :: bool
  task_list :: tasklist
  merged_into :: "nat option"

record comment =
  comment_id :: nat
  comment_task :: nat
  author :: nat
  body :: string

record attachment =
  attachment_id :: nat
  attachment_comment_id :: nat
  attachment_file :: string

record notification =
  n_task :: nat
  n_body :: string
  n_user :: nat
  n_subject :: string
  n_recipients :: "nat list"

text \<open>
  Everything a request can change: the three tables, the two primary-key counters of the
  tables the view inserts into, the mails handed to the notification dispatch, and the
  messages of \<^verbatim>\<open>django.contrib.messages\<close>.
\<close>

record store =
  tasks :: "task list"
  comments :: "comment list"
  attachments :: "attachment list"
  next_comment_id :: nat
  next_attachment_id :: nat
  outbox :: "notification list"
  messages :: "string list"

text \<open>
  \<^verbatim>\<open>request.POST\<close> and \<^verbatim>\<open>request.FILES\<close> are query dictionaries: \<^verbatim>\<open>get\<close> returns the
  last value submitted for a key, or \<^verbatim>\<open>None\<close>. A value is truthy when it is a non-empty
  string.
\<close>

type_synonym querydict = "(string \<times> string) list"

definition qd_get :: "querydict \<Rightarrow> string \<Rightarrow> string option" where
  "qd_get d k =
     (case filter (\<lambda>kv. fst kv = k) d of [] \<Rightarrow> None | x # xs \<Rightarrow> Some (snd (last (x # xs))))"

fun truthy :: "string option \<Rightarrow> bool" where
  "truthy None = False"
| "truthy (Some v) = (v \<noteq> [])"

record request =
  req_user :: user
  POST :: querydict
  FILES :: querydict

text \<open>
  A form is unbound (freshly constructed) or bound to the submitted data and files; a
  bound form is what is redisplayed with its validation messages.
\<close>

datatype form = Unbound | Bound querydict querydict

record task_form_data =
  f_title :: string
  f_note :: string
  f_due_date :: "nat option"
  f_task_list :: tasklist

record page_context =
  ctx_task :: task
  ctx_comment_list :: "comment list"
  ctx_form :: form
  ctx_merge_form :: "form option"
  ctx_comment_form :: form
  ctx_attachments_formset :: form

datatype target = TaskDetail nat | ListDetail nat string

datatype response = Rendered page_context | Redirect target | RedirectLogin

datatype error = Http404 | PermissionDenied | UnboundLocalError

text \<open>
  What the view imports and this repository's \<^verbatim>\<open>src/\<close> does not define is a parameter:
  the feature flag \<^verbatim>\<open>HAS_TASK_MERGE\<close>, the setting \<^verbatim>\<open>TODO_STAFF_ONLY\<close>, the validation of
  the three form classes of \<^verbatim>\<open>todo.forms\<close> (\<open>None\<close> when \<^verbatim>\<open>is_valid()\<close> is false, the
  cleaned data otherwise), the conversion of a submitted primary key, and
  \<^verbatim>\<open>bleach.clean(_, strip=True)\<close>. The task form is a model form bound to the task
  object itself (\<^verbatim>\<open>instance=task\<close>): \<^verbatim>\<open>is_valid()\<close> writes the cleaned value of every
  field that validates onto that object, also when the form as a whole is rejected.
  \<open>task_form_instance\<close> gives the values the form's fields have on the object after a
  validation that failed.
\<close>

record env =
  HAS_TASK_MERGE :: bool
  TODO_STAFF_ONLY :: bool
  comment_form_clean :: "querydict \<Rightarrow> querydict \<Rightarrow> string option"
  attachment_formset_clean :: "querydict \<Rightarrow> querydict \<Rightarrow> string list option"
  task_form_clean :: "user \<Rightarrow> querydict \<Rightarrow> task \<Rightarrow> task_form_data option"
  task_form_instance :: "user \<Rightarrow> querydict \<Rightarrow> task \<Rightarrow> task_form_data"
  pk_of_string :: "string \<Rightarrow> nat option"
  bleach_clean :: "string \<Rightarrow> string"

section \<open>The persistence layer\<close>

definition get_object :: "task list \<Rightarrow> nat \<Rightarrow> task option" where
  "get_object ts k = find (\<lambda>t. task_id t = k) ts"

definition save_task :: "store \<Rightarrow> task \<Rightarrow> store" where
  "save_task s item =
     (case get_object (tasks s) (task_id item) of
        None \<Rightarrow> s\<lparr>tasks := tasks s @ [item]\<rparr>
      | Some _ \<Rightarrow> s\<lparr>tasks := map (\<lambda>t. if task_id t = task_id item then item else t) (tasks s)\<rparr>)"

definition save_comment :: "store \<Rightarrow> nat \<Rightarrow> nat \<Rightarrow> string \<Rightarrow> store \<times> comment" where
  "save_comment s tid uid b =
     (let c = \<lparr>comment_id = next_comment_id s, comment_task = tid, author = uid, body = b\<rparr>
      in (s\<lparr>comments := comments s @ [c], next_comment_id := Suc (next_comment_id s)\<rparr>, c))"

fun save_attachments :: "store \<Rightarrow> nat \<Rightarrow> string list \<Rightarrow> store" where
  "save_attachments s cid [] = s"
| "save_attachments s cid (f # fs) =
     save_attachments
       (s\<lparr>attachments := attachments s @
             [\<lparr>attachment_id = next_attachment_id s, attachment_comment_id = cid, attachment_file = f\<rparr>],
          next_attachment_id := Suc (next_attachment_id s)\<rparr>)
       cid fs"

definition messages_success :: "store \<Rightarrow> string \<Rightarrow> store" where
  "messages_success s m = s\<lparr>messages := messages s @ [m]\<rparr>"

section \<open>Helpers of \<^verbatim>\<open>todo.utils\<close> and \<^verbatim>\<open>todo.models\<close>\<close>

text \<open>
  Modelled from the spec: \<^verbatim>\<open>staff_check\<close> of \<^verbatim>\<open>todo.utils\<close> is not among the sources.
  Staff-only mode is the configuration restricting all views to users flagged as staff.
\<close>

definition staff_check :: "env \<Rightarrow> user \<Rightarrow> bool" where
  "staff_check env u = (if TODO_STAFF_ONLY env then is_staff u else True)"

text \<open>
  Modelled from the spec: \<^verbatim>\<open>user_can_read_task\<close> of \<^verbatim>\<open>todo.utils\<close> is not among the
  sources. Superusers always pass; otherwise the user must be staff (if staff-only mode is
  configured) and a member of the task's owning group.
\<close>

definition user_can_read_task :: "env \<Rightarrow> task \<Rightarrow> user \<Rightarrow> bool" where
  "user_can_read_task env t u =
     (if is_superuser u then True
      else staff_check env u \<and> group (task_list t) \<in> set (groups u))"

text \<open>
  Modelled from the spec: \<^verbatim>\<open>toggle_task_completed\<close> of \<^verbatim>\<open>todo.utils\<close> is not among the
  sources. It flips the task's completion flag and reports to the caller whether the
  flag's value actually changed.
\<close>

definition toggle_task_completed :: "store \<Rightarrow> nat \<Rightarrow> store \<times> bool" where
  "toggle_task_completed s tid =
     (case get_object (tasks s) tid of
        None \<Rightarrow> (s, False)
      | Some t \<Rightarrow>
          (let t' = t\<lparr>completed := \<not> completed t\<rparr>
           in (save_task s t', completed t' \<noteq> completed t)))"

text \<open>
  Modelled from the spec: \<^verbatim>\<open>Task.merge_into\<close> of \<^verbatim>\<open>todo.models\<close> is not among the
  sources. It reassigns all of the source's comments (and with them their attachments,
  which hang on the comments) to the target, then marks the source as merged into the
  target.
\<close>

definition merge_into :: "store \<Rightarrow> task \<Rightarrow> task \<Rightarrow> store" where
  "merge_into s src tgt =
     save_task
       (s\<lparr>comments :=
            map (\<lambda>c. if comment_task c = task_id src then c\<lparr>comment_task := task_id tgt\<rparr> else c)
              (comments s)\<rparr>)
       (src\<lparr>merged_into := Some (task_id tgt)\<rparr>)"

text \<open>
  Modelled from the spec: \<^verbatim>\<open>send_email_to_thread_participants\<close> of \<^verbatim>\<open>todo.utils\<close> is not
  among the sources. The thread participants of a task are the distinct users who have
  authored a comment on it; the dispatch sends one mail to all of them.
\<close>

definition thread_participants :: "comment list \<Rightarrow> nat \<Rightarrow> nat list" where
  "thread_participants cs tid = remdups (map author (filter (\<lambda>c. comment_task c = tid) cs))"

definition send_email_to_thread_participants ::
  "store \<Rightarrow> task \<Rightarrow> string \<Rightarrow> user \<Rightarrow> string \<Rightarrow> store" where
  "send_email_to_thread_participants s t msg_body u subject =
     s\<lparr>outbox := outbox s @
         [\<lparr>n_task = task_id t, n_body = msg_body, n_user = user_id u, n_subject = subject,
           n_recipients = thread_participants (comments s) (task_id t)\<rparr>]\<rparr>"

section \<open>The view\<close>

definition digit_char :: "nat \<Rightarrow> char" where
  "digit_char d =
     (if d = 0 then CHR ''0'' else if d = 1 then CHR ''1'' else if d = 2 then CHR ''2''
      else if d = 3 then CHR ''3'' else if d = 4 then CHR ''4'' else if d = 5 then CHR ''5''
      else if d = 6 then CHR ''6'' else if d = 7 then CHR ''7'' else if d = 8 then CHR ''8''
      else CHR ''9'')"

fun string_of_nat :: "nat \<Rightarrow> string" where
  "string_of_nat n =
     (if n < 10 then [digit_char n] else string_of_nat (n div 10) @ [digit_char (n mod 10)])"

declare string_of_nat.simps [simp del]

text \<open>\<^verbatim>\<open>handle_add_comment\<close>, lines 56 to 104.\<close>

definition handle_add_comment ::
  "env \<Rightarrow> request \<Rightarrow> task \<Rightarrow> form \<Rightarrow> form \<Rightarrow> store \<Rightarrow> store \<times> form \<times> form" where
  "handle_add_comment env req t comment_form attachments_formset s =
     (if \<not> truthy (qd_get (POST req) ''add_comment'') then (s, comment_form, attachments_formset)
      else
        (case comment_form_clean env (POST req) (FILES req) of
           None \<Rightarrow> (s, Bound (POST req) (FILES req), attachments_formset)
         | Some b \<Rightarrow>
             (case attachment_formset_clean env (POST req) (FILES req) of
                None \<Rightarrow> (s, Bound (POST req) (FILES req), Bound (POST req) (FILES req))
              | Some fs \<Rightarrow>
                  (case save_comment s (task_id t) (user_id (req_user req)) b of
                     (s1, c) \<Rightarrow>
                       (let s2 = save_attachments s1 (comment_id c) fs;
                            s3 = send_email_to_thread_participants s2 t (body c) (req_user req)
                                   (''New comment posted on task '' @ [CHR 0x22] @ title t @ [CHR 0x22]);
                            s4 = messages_success s3
                                   ''Comment posted. Notification email sent to thread participants.''
                        in (s4, Unbound, Unbound))))))"

text \<open>
  The form declared inside the view, lines 129 to 136: one required model choice over all
  tasks. It is valid when the submitted \<^verbatim>\<open>merge_target\<close> is the key of a stored task, and
  its cleaned value is that task.
\<close>

definition merge_form_clean :: "env \<Rightarrow> store \<Rightarrow> querydict \<Rightarrow> task option" where
  "merge_form_clean env s d =
     (case qd_get d ''merge_target'' of
        None \<Rightarrow> None
      | Some v \<Rightarrow>
          (if v = [] then None
           else (case pk_of_string env v of None \<Rightarrow> None | Some k \<Rightarrow> get_object (tasks s) k)))"

text \<open>
  \<^verbatim>\<open>task_detail\<close>, lines 107 to 209. The two decorators answer with a redirect to the
  login page; an exception leaves the view as \<open>Inl\<close>. On line 145 the name
  \<^verbatim>\<open>merge_target\<close> is read whether or not line 144 has bound it. The comment list of the
  context is a lazy query, read when the page is rendered; comments are stored in the
  order of their creation, so the newest come first in the reversed list. The context
  entries that only read the clock or the settings are left out. The task of the context
  is the object loaded on line 115; when an edit was submitted and rejected, it carries
  what the validation of the form wrote onto it, while the stored row is as it was.
\<close>

definition instance_after_is_valid :: "env \<Rightarrow> request \<Rightarrow> task \<Rightarrow> task" where
  "instance_after_is_valid env req t =
     (let p = task_form_instance env (req_user req) (POST req) t
      in t\<lparr>title := f_title p, note_text := f_note p, due_date := f_due_date p,
           task_list := f_task_list p\<rparr>)"

definition task_detail :: "env \<Rightarrow> request \<Rightarrow> nat \<Rightarrow> store \<Rightarrow> store \<times> (error + response)" where
  "task_detail env req tid s =
     (if \<not> is_authenticated (req_user req) then (s, Inr RedirectLogin)
      else if \<not> staff_check env (req_user req) then (s, Inr RedirectLogin)
      else
        (case get_object (tasks s) tid of
           None \<Rightarrow> (s, Inl Http404)
         | Some t \<Rightarrow>
             if \<not> user_can_read_task env t (req_user req) then (s, Inl PermissionDenied)
             else if HAS_TASK_MERGE env \<and> truthy (qd_get (POST req) ''merge_task_into'') then
               (case merge_form_clean env s (POST req) of
                  None \<Rightarrow> (s, Inl UnboundLocalError)
                | Some merge_target \<Rightarrow>
                    if \<not> user_can_read_task env merge_target (req_user req)
                    then (s, Inl PermissionDenied)
                    else (merge_into s t merge_target,
                          Inr (Redirect (TaskDetail (task_id merge_target)))))
             else
               (case handle_add_comment env req t Unbound Unbound s of
                  (s1, comment_form, attachments_formset) \<Rightarrow>
                    (case (if truthy (qd_get (POST req) ''add_edit_task'')
                           then task_form_clean env (req_user req) (POST req) t else None) of
                       Some d \<Rightarrow>
                         (let item = t\<lparr>title := bleach_clean env (f_title d),
                                       note_text := f_note d, due_date := f_due_date d,
                                       task_list := f_task_list d\<rparr>
                          in (messages_success (save_task s1 item) ''The task has been edited.'',
                              Inr (Redirect (ListDetail (list_id (task_list item))
                                                        (slug (task_list item))))))
                     | None \<Rightarrow>
                         if truthy (qd_get (POST req) ''toggle_done'') then
                           (case toggle_task_completed s1 (task_id t) of
                              (s2, results_changed) \<Rightarrow>
                                ((if results_changed
                                  then messages_success s2
                                         (''Changed completion status for task '' @
                                          string_of_nat (task_id t))
                                  else s2),
                                 Inr (Redirect (TaskDetail (task_id t)))))
                         else
                           (s1, Inr (Rendered
                              \<lparr>ctx_task =
                                 (if truthy (qd_get (POST req) ''add_edit_task'')
                                  then instance_after_is_valid env req t else t),
                               ctx_comment_list =
                                 rev (filter (\<lambda>c. comment_task c = tid) (comments s1)),
                               ctx_form =
                                 (if truthy (qd_get (POST req) ''add_edit_task'')
                                  then Bound (POST req) [] else Unbound),
                               ctx_merge_form =
                                 (if HAS_TASK_MERGE env then Some Unbound else None),
                               ctx_comment_form = comment_form,
                               ctx_attachments_formset = attachments_formset\<rparr>))))))"

section \<open>Request sequences and merged tasks\<close>




section \<open>A small installation\<close>

text \<open>
  One concrete environment, store and set of users, on which the theorems below are
  instantiated. The form validators and the tag stripper of this environment are an
  instance of the parameters, chosen for the examples; they are not the validators of
  \<^verbatim>\<open>todo.forms\<close> nor the sanitizer of the \<^verbatim>\<open>bleach\<close> library.
\<close>

fun strip_tags :: "bool \<Rightarrow> string \<Rightarrow> string" where
  "strip_tags in_tag [] = []"
| "strip_tags False (c # cs) =
     (if c = CHR ''<'' then strip_tags True cs else c # strip_tags False cs)"
| "strip_tags True (c # cs) =
     (if c = CHR ''>'' then strip_tags False cs else strip_tags True cs)"

definition ex_list :: tasklist where
  "ex_list = \<lparr>list_id = 7, slug = ''chores'', group = 10\<rparr>"

definition ex_task :: "nat \<Rightarrow> task" where
  "ex_task k = \<lparr>task_id = k, title = ''Paint'', note_text = [], due_date = None,
               completed = False, task_list = ex_list, merged_into = None\<rparr>"

definition ex_private_task :: task where
  "ex_private_task = \<lparr>task_id = 3, title = ''Audit'', note_text = [], due_date = None,
                       completed = False,
                       task_list = \<lparr>list_id = 8, slug = ''board'', group = 20\<rparr>,
                       merged_into = None\<rparr>"

definition ex_store :: store where
  "ex_store = \<lparr>tasks = [ex_task 1, ex_task 2, ex_private_task],
               comments = [\<lparr>comment_id = 1, comment_task = 1, author = 5, body = ''first''\<rparr>],
               attachments = [], next_comment_id = 2, next_attachment_id = 1,
               outbox = [], messages = []\<rparr>"

definition ex_env :: env where
  "ex_env = \<lparr>HAS_TASK_MERGE = True, TODO_STAFF_ONLY = False,
             comment_form_clean =
               (\<lambda>d f. case qd_get d ''body'' of None \<Rightarrow> None
                       | Some b \<Rightarrow> if b = [] then None else Some b),
             attachment_formset_clean =
               (\<lambda>d f. if [] \<in> set (map snd f) then None else Some (map snd f)),
             task_form_clean =
               (\<lambda>u d t. case qd_get d ''title'' of None \<Rightarrow> None
                         | Some v \<Rightarrow> if v = [] then None
                             else Some \<lparr>f_title = v,
                                        f_note = (case qd_get d ''note'' of None \<Rightarrow> note_text t
                                                  | Some n \<Rightarrow> n),
                                        f_due_date = due_date t, f_task_list = task_list t\<rparr>),
             task_form_instance =
               (\<lambda>u d t. \<lparr>f_title = title t,
                          f_note = (case qd_get d ''note'' of None \<Rightarrow> note_text t
                                    | Some n \<Rightarrow> n),
                          f_due_date = due_date t, f_task_list = task_list t\<rparr>),
             pk_of_string =
               (\<lambda>v. if v = ''1'' then Some 1 else if v = ''2'' then Some 2
                     else if v = ''3'' then Some 3 else None),
             bleach_clean = strip_tags False\<rparr>"

definition member :: user where
  "member = \<lparr>user_id = 4, is_authenticated = True, is_staff = True, is_superuser = False,
             groups = [10]\<rparr>"

definition outsider :: user where
  "outsider = \<lparr>user_id = 6, is_authenticated = True, is_staff = False, is_superuser = False,
               groups = [11]\<rparr>"

definition root :: user where
  "root = \<lparr>user_id = 9, is_authenticated = True, is_staff = False, is_superuser = True,
           groups = []\<rparr>"

definition ex_req :: "user \<Rightarrow> querydict \<Rightarrow> querydict \<Rightarrow> request" where
  "ex_req u d f = \<lparr>req_user = u, POST = d, FILES = f\<rparr>"

section \<open>Auxiliary facts\<close>

lemmas ex_defs = ex_env_def ex_store_def ex_task_def ex_private_task_def ex_list_def
  member_def outsider_def root_def ex_req_def qd_get_def

lemma tasks_save_attachments [simp]: "tasks (save_attachments s cid fs) = tasks s"
  by (induction fs arbitrary: s) simp_all

lemma comments_save_attachments [simp]: "comments (save_attachments s cid fs) = comments s"
  by (induction fs arbitrary: s) simp_all

lemma outbox_save_attachments [simp]: "outbox (save_attachments s cid fs) = outbox s"
  by (induction fs arbitrary: s) simp_all

lemma messages_save_attachments [simp]: "messages (save_attachments s cid fs) = messages s"
  by (induction fs arbitrary: s) simp_all

lemma tasks_handle_add_comment:
  "tasks (fst (handle_add_comment env req t cf af s)) = tasks s"
  by (simp add: handle_add_comment_def save_comment_def send_email_to_thread_participants_def
        messages_success_def Let_def split: option.splits)

lemma get_object_Some_id: "get_object ts k = Some t \<Longrightarrow> task_id t = k"
  by (auto simp add: get_object_def find_Some_iff)


lemma get_object_map_update:
  "get_object ts k = Some t \<Longrightarrow> task_id item = k \<Longrightarrow>
   get_object (map (\<lambda>x. if task_id x = k then item else x) ts) k = Some item"
  by (induction ts) (auto simp add: get_object_def)

lemma get_object_save_task:
  "get_object (tasks s) k = Some t \<Longrightarrow> task_id item = k \<Longrightarrow>
   get_object (tasks (save_task s item)) k = Some item"
  by (simp add: save_task_def get_object_map_update)

lemma toggle_found:
  assumes "get_object (tasks s) tid = Some t"
  shows "toggle_task_completed s tid = (save_task s (t\<lparr>completed := \<not> completed t\<rparr>), True)"
  using assms by (simp add: toggle_task_completed_def Let_def)

lemma messages_save_task [simp]: "messages (save_task s item) = messages s"
  by (simp add: save_task_def split: option.splits)

lemma comments_save_task [simp]: "comments (save_task s item) = comments s"
  by (simp add: save_task_def split: option.splits)

lemma attachments_save_task [simp]: "attachments (save_task s item) = attachments s"
  by (simp add: save_task_def split: option.splits)

lemma outbox_save_task [simp]: "outbox (save_task s item) = outbox s"
  by (simp add: save_task_def split: option.splits)







lemma task_detail_toggle:
  assumes "is_authenticated (req_user req)"
    and "staff_check env (req_user req)"
    and "get_object (tasks s) tid = Some t"
    and "user_can_read_task env t (req_user req)"
    and "\<not> (HAS_TASK_MERGE env \<and> truthy (qd_get (POST req) ''merge_task_into''))"
    and "\<not> truthy (qd_get (POST req) ''add_comment'')"
    and "\<not> truthy (qd_get (POST req) ''add_edit_task'')"
    and "truthy (qd_get (POST req) ''toggle_done'')"
  shows "task_detail env req tid s =
           (messages_success (save_task s (t\<lparr>completed := \<not> completed t\<rparr>))
              (''Changed completion status for task '' @ string_of_nat tid),
            Inr (Redirect (TaskDetail tid)))"
proof -
  have i: "task_id t = tid" using assms(3) by (rule get_object_Some_id)
  show ?thesis
    using assms i toggle_found [OF assms(3)]
    by (auto simp add: task_detail_def handle_add_comment_def)
qed




















section \<open>Comment and attachment submission\<close>

text \<open>
  C10. When the submitted data has no (truthy) \<^verbatim>\<open>add_comment\<close> field,
  \<^verbatim>\<open>handle_add_comment\<close> is a no-op: it gives back exactly the two forms it was given and
  leaves the whole store (comments, attachments, notifications, messages) as it was.
\<close>

theorem handle_add_comment_noop:
  assumes "\<not> truthy (qd_get (POST req) ''add_comment'')"
  shows "handle_add_comment env req t comment_form attachments_formset s =
           (s, comment_form, attachments_formset)"
  using assms by (simp add: handle_add_comment_def)

theorem handle_add_comment_noop_witness:
  "\<not> truthy (qd_get (POST (ex_req member [(''toggle_done'', ''1'')] [])) ''add_comment'')
   \<and> handle_add_comment ex_env (ex_req member [(''toggle_done'', ''1'')] [])
        (ex_task 1) Unbound Unbound ex_store = (ex_store, Unbound, Unbound)"
  using handle_add_comment_noop [of "ex_req member [(''toggle_done'', ''1'')] []"
      ex_env "ex_task 1" Unbound Unbound ex_store]
  by (simp add: ex_req_def qd_get_def)

text \<open>
  C1. Comment and attachment submission is all or nothing: when \<^verbatim>\<open>add_comment\<close> is
  submitted and the comment form or the attachment formset fails validation, the store is
  returned unchanged (no comment, no attachment, no notification, no message), and the
  caller gets the bound comment form back for redisplay, together with the bound formset
  when the formset was validated, or the formset it passed in when the comment form
  already failed.
\<close>

theorem handle_add_comment_all_or_nothing:
  assumes "truthy (qd_get (POST req) ''add_comment'')"
    and "comment_form_clean env (POST req) (FILES req) = None
         \<or> attachment_formset_clean env (POST req) (FILES req) = None"
  shows "handle_add_comment env req t comment_form attachments_formset s =
           (s, Bound (POST req) (FILES req),
            if comment_form_clean env (POST req) (FILES req) = None then attachments_formset
            else Bound (POST req) (FILES req))"
  using assms by (auto simp add: handle_add_comment_def split: option.splits)

theorem handle_add_comment_all_or_nothing_witness:
  "truthy (qd_get [(''add_comment'', ''1''), (''body'', ''hello'')] ''add_comment'')
   \<and> attachment_formset_clean ex_env [(''add_comment'', ''1''), (''body'', ''hello'')]
        [(''form-0-file'', [])] = None
   \<and> handle_add_comment ex_env
        (ex_req member [(''add_comment'', ''1''), (''body'', ''hello'')] [(''form-0-file'', [])])
        (ex_task 1) Unbound Unbound ex_store =
      (ex_store,
       Bound [(''add_comment'', ''1''), (''body'', ''hello'')] [(''form-0-file'', [])],
       Bound [(''add_comment'', ''1''), (''body'', ''hello'')] [(''form-0-file'', [])])"
  using handle_add_comment_all_or_nothing [of
      "ex_req member [(''add_comment'', ''1''), (''body'', ''hello'')] [(''form-0-file'', [])]"
      ex_env "ex_task 1" Unbound Unbound ex_store]
  by (simp add: ex_env_def ex_req_def qd_get_def)

text \<open>
  C5. A valid comment with one valid attachment persists exactly one comment, bound to the
  target task and to the requesting user as author, and exactly one attachment whose
  comment reference is the new comment's id; the task table is untouched, fresh forms are
  returned, and one notification is handed to the dispatch, addressed to the thread
  participants of the task: distinct users, among them every author of a comment that was
  on the task before.
\<close>

theorem handle_add_comment_persists:
  assumes "truthy (qd_get (POST req) ''add_comment'')"
    and "comment_form_clean env (POST req) (FILES req) = Some b"
    and "attachment_formset_clean env (POST req) (FILES req) = Some [f]"
  shows "(let r = handle_add_comment env req t comment_form attachments_formset s;
              s' = fst r;
              c = \<lparr>comment_id = next_comment_id s, comment_task = task_id t,
                   author = user_id (req_user req), body = b\<rparr>
          in snd r = (Unbound, Unbound)
           \<and> tasks s' = tasks s
           \<and> comments s' = comments s @ [c]
           \<and> attachments s' = attachments s @
                [\<lparr>attachment_id = next_attachment_id s, attachment_comment_id = comment_id c,
                  attachment_file = f\<rparr>]
           \<and> outbox s' = outbox s @
                [\<lparr>n_task = task_id t, n_body = b, n_user = user_id (req_user req),
                  n_subject = ''New comment posted on task '' @ [CHR 0x22] @ title t @ [CHR 0x22],
                  n_recipients = thread_participants (comments s @ [c]) (task_id t)\<rparr>]
           \<and> distinct (thread_participants (comments s @ [c]) (task_id t))
           \<and> set (thread_participants (comments s) (task_id t))
               \<subseteq> set (thread_participants (comments s @ [c]) (task_id t)))"
  using assms
  by (auto simp add: handle_add_comment_def save_comment_def send_email_to_thread_participants_def
        messages_success_def thread_participants_def Let_def)

theorem handle_add_comment_persists_witness:
  "truthy (qd_get [(''add_comment'', ''1''), (''body'', ''hello'')] ''add_comment'')
   \<and> comments (fst (handle_add_comment ex_env
        (ex_req member [(''add_comment'', ''1''), (''body'', ''hello'')]
           [(''form-0-file'', ''a.png'')])
        (ex_task 1) Unbound Unbound ex_store)) =
      comments ex_store @ [\<lparr>comment_id = 2, comment_task = 1, author = 4, body = ''hello''\<rparr>]
   \<and> attachments (fst (handle_add_comment ex_env
        (ex_req member [(''add_comment'', ''1''), (''body'', ''hello'')]
           [(''form-0-file'', ''a.png'')])
        (ex_task 1) Unbound Unbound ex_store)) =
      [\<lparr>attachment_id = 1, attachment_comment_id = 2, attachment_file = ''a.png''\<rparr>]
   \<and> map n_recipients (outbox (fst (handle_add_comment ex_env
        (ex_req member [(''add_comment'', ''1''), (''body'', ''hello'')]
           [(''form-0-file'', ''a.png'')])
        (ex_task 1) Unbound Unbound ex_store))) = [[5, 4]]"
  using handle_add_comment_persists [of
      "ex_req member [(''add_comment'', ''1''), (''body'', ''hello'')]
         [(''form-0-file'', ''a.png'')]"
      ex_env "''hello''" "''a.png''" "ex_task 1" Unbound Unbound ex_store]
  by (simp add: ex_defs thread_participants_def Let_def)

section \<open>Permission checks\<close>

text \<open>
  C3, as the code has it. For every stored task, a request by a user who is not a
  superuser and not a member of the task's owning group never renders the task and
  changes nothing: it is answered with the forbidden condition when the user is logged
  in and passes the staff check, and with the redirect to the login page when one of the
  two decorators turns the user away.
\<close>

theorem task_detail_denies_non_member:
  assumes "get_object (tasks s) tid = Some t"
    and "\<not> is_superuser (req_user req)"
    and "group (task_list t) \<notin> set (groups (req_user req))"
  shows "task_detail env req tid s =
           (s, if is_authenticated (req_user req) \<and> staff_check env (req_user req)
               then Inl PermissionDenied else Inr RedirectLogin)"
  using assms by (simp add: task_detail_def user_can_read_task_def)

theorem task_detail_denies_non_member_witness:
  "get_object (tasks ex_store) 1 = Some (ex_task 1)
   \<and> \<not> is_superuser outsider
   \<and> group (task_list (ex_task 1)) \<notin> set (groups outsider)
   \<and> task_detail ex_env (ex_req outsider [] []) 1 ex_store = (ex_store, Inl PermissionDenied)"
  using task_detail_denies_non_member [of ex_store 1 "ex_task 1" "ex_req outsider [] []" ex_env]
  by (simp add: ex_defs get_object_def staff_check_def)

text \<open>
  C3 as stated fails for a superuser: one who is neither staff nor a member of the owning
  group is shown the task. It also fails in staff-only mode, where a user who is neither
  staff nor member is sent to the login page by the decorator and not answered with the
  forbidden condition.
\<close>

theorem task_detail_superuser_counterexample:
  "\<not> is_staff root
   \<and> group (task_list (ex_task 1)) \<notin> set (groups root)
   \<and> get_object (tasks ex_store) 1 = Some (ex_task 1)
   \<and> task_detail ex_env (ex_req root [] []) 1 ex_store =
       (ex_store,
        Inr (Rendered
          \<lparr>ctx_task = ex_task 1,
           ctx_comment_list = [\<lparr>comment_id = 1, comment_task = 1, author = 5, body = ''first''\<rparr>],
           ctx_form = Unbound, ctx_merge_form = Some Unbound,
           ctx_comment_form = Unbound, ctx_attachments_formset = Unbound\<rparr>))
   \<and> \<not> is_staff outsider
   \<and> group (task_list (ex_task 1)) \<notin> set (groups outsider)
   \<and> task_detail (ex_env\<lparr>TODO_STAFF_ONLY := True\<rparr>) (ex_req outsider [] []) 1 ex_store =
       (ex_store, Inr RedirectLogin)"
  by (simp add: ex_defs get_object_def staff_check_def user_can_read_task_def task_detail_def
        handle_add_comment_def)

section \<open>Task merge\<close>

text \<open>
  C7. A merge whose chosen target the acting user may not read is rejected with the
  forbidden condition before anything is reassigned: the store is returned as it was, so
  no comment has moved and the source task carries no merge mark.
\<close>

theorem merge_unreadable_target_forbidden:
  assumes "is_authenticated (req_user req)"
    and "staff_check env (req_user req)"
    and "get_object (tasks s) tid = Some t"
    and "user_can_read_task env t (req_user req)"
    and "HAS_TASK_MERGE env"
    and "truthy (qd_get (POST req) ''merge_task_into'')"
    and "merge_form_clean env s (POST req) = Some merge_target"
    and "\<not> user_can_read_task env merge_target (req_user req)"
  shows "task_detail env req tid s = (s, Inl PermissionDenied)"
  using assms by (simp add: task_detail_def)

theorem merge_unreadable_target_forbidden_witness:
  "user_can_read_task ex_env (ex_task 1) member
   \<and> merge_form_clean ex_env ex_store [(''merge_task_into'', ''1''), (''merge_target'', ''3'')]
       = Some ex_private_task
   \<and> \<not> user_can_read_task ex_env ex_private_task member
   \<and> task_detail ex_env
       (ex_req member [(''merge_task_into'', ''1''), (''merge_target'', ''3'')] []) 1 ex_store =
      (ex_store, Inl PermissionDenied)"
  using merge_unreadable_target_forbidden [of
      "ex_req member [(''merge_task_into'', ''1''), (''merge_target'', ''3'')] []"
      ex_env ex_store 1 "ex_task 1" ex_private_task]
  by (simp add: ex_defs get_object_def staff_check_def user_can_read_task_def
        merge_form_clean_def)

text \<open>
  C4 is what the view should do and does not. With the merge feature on, a request that
  submits \<^verbatim>\<open>merge_task_into\<close> without a resolvable \<^verbatim>\<open>merge_target\<close> leaves the merge form
  invalid; line 145 then reads the name \<^verbatim>\<open>merge_target\<close>, which line 144 never bound, and
  the view ends in \<^verbatim>\<open>UnboundLocalError\<close> instead of redisplaying the form. Nothing is
  persisted.
\<close>

theorem merge_invalid_form_raises:
  "merge_form_clean ex_env ex_store [(''merge_task_into'', ''1'')] = None
   \<and> task_detail ex_env (ex_req member [(''merge_task_into'', ''1'')] []) 1 ex_store =
       (ex_store, Inl UnboundLocalError)"
  by (simp add: ex_defs get_object_def staff_check_def user_can_read_task_def
        merge_form_clean_def task_detail_def)

section \<open>Task edit\<close>

text \<open>
  C8. A task-edit submission that validates (on a request that reaches the edit, that is,
  one that does not trigger the merge) stores the task with the title that
  \<^verbatim>\<open>bleach.clean(_, strip=True)\<close> makes of the submitted title, and answers with the
  redirect to the list view of the task's list.
\<close>

theorem task_edit_sanitizes_and_redirects:
  assumes "is_authenticated (req_user req)"
    and "staff_check env (req_user req)"
    and "get_object (tasks s) tid = Some t"
    and "user_can_read_task env t (req_user req)"
    and "\<not> (HAS_TASK_MERGE env \<and> truthy (qd_get (POST req) ''merge_task_into''))"
    and "truthy (qd_get (POST req) ''add_edit_task'')"
    and "task_form_clean env (req_user req) (POST req) t = Some d"
  shows "(let r = task_detail env req tid s;
              item = t\<lparr>title := bleach_clean env (f_title d), note_text := f_note d,
                       due_date := f_due_date d, task_list := f_task_list d\<rparr>
          in get_object (tasks (fst r)) tid = Some item
           \<and> title item = bleach_clean env (f_title d)
           \<and> snd r = Inr (Redirect (ListDetail (list_id (task_list item)) (slug (task_list item)))))"
proof -
  obtain s1 cf af where h: "handle_add_comment env req t Unbound Unbound s = (s1, cf, af)"
    by (cases "handle_add_comment env req t Unbound Unbound s") auto
  have "tasks s1 = tasks s"
    using tasks_handle_add_comment [of env req t Unbound Unbound s] h by simp
  with assms(3) have g: "get_object (tasks s1) tid = Some t" by simp
  have i: "task_id t = tid" using assms(3) by (rule get_object_Some_id)
  show ?thesis
    using assms h i get_object_save_task [OF g]
    by (auto simp add: task_detail_def Let_def messages_success_def)
qed

theorem task_edit_sanitizes_and_redirects_witness:
  "task_form_clean ex_env member
     [(''add_edit_task'', ''1''), (''title'', ''<script>alert(1)</script>Paint it'')] (ex_task 1)
     = Some \<lparr>f_title = ''<script>alert(1)</script>Paint it'', f_note = [], f_due_date = None,
             f_task_list = ex_list\<rparr>
   \<and> map_option title (get_object (tasks (fst (task_detail ex_env
        (ex_req member
           [(''add_edit_task'', ''1''), (''title'', ''<script>alert(1)</script>Paint it'')] [])
        1 ex_store))) 1) = Some ''alert(1)Paint it''
   \<and> snd (task_detail ex_env
        (ex_req member
           [(''add_edit_task'', ''1''), (''title'', ''<script>alert(1)</script>Paint it'')] [])
        1 ex_store) = Inr (Redirect (ListDetail 7 ''chores''))"
  using task_edit_sanitizes_and_redirects [of
      "ex_req member
         [(''add_edit_task'', ''1''), (''title'', ''<script>alert(1)</script>Paint it'')] []"
      ex_env ex_store 1 "ex_task 1"
      "\<lparr>f_title = ''<script>alert(1)</script>Paint it'', f_note = [], f_due_date = None,
        f_task_list = ex_list\<rparr>"]
  by (simp add: ex_defs get_object_def staff_check_def user_can_read_task_def Let_def)

section \<open>Which workflows run in one request\<close>




section \<open>Completion toggle\<close>

text \<open>
  C9, as the code has it. Two consecutive toggle requests (with nothing else submitted)
  return the task to its original completion state; each of the two flips the flag, so
  the helper reports a change both times and the view records the message
  \<^verbatim>\<open>Changed completion status\<close> on the first and on the second toggle.
\<close>

theorem toggle_twice_restores_and_reports_changed:
  assumes "is_authenticated (req_user req)"
    and "staff_check env (req_user req)"
    and "get_object (tasks s) tid = Some t"
    and "user_can_read_task env t (req_user req)"
    and "\<not> (HAS_TASK_MERGE env \<and> truthy (qd_get (POST req) ''merge_task_into''))"
    and "\<not> truthy (qd_get (POST req) ''add_comment'')"
    and "\<not> truthy (qd_get (POST req) ''add_edit_task'')"
    and "truthy (qd_get (POST req) ''toggle_done'')"
  shows "(let r1 = task_detail env req tid s;
              r2 = task_detail env req tid (fst r1);
              m = ''Changed completion status for task '' @ string_of_nat tid
          in get_object (tasks (fst r1)) tid = Some (t\<lparr>completed := \<not> completed t\<rparr>)
           \<and> get_object (tasks (fst r2)) tid = Some t
           \<and> snd r1 = Inr (Redirect (TaskDetail tid))
           \<and> snd r2 = Inr (Redirect (TaskDetail tid))
           \<and> snd (toggle_task_completed s tid)
           \<and> snd (toggle_task_completed (fst r1) tid)
           \<and> messages (fst r1) = messages s @ [m]
           \<and> messages (fst r2) = messages s @ [m, m])"
proof -
  let ?t1 = "t\<lparr>completed := \<not> completed t\<rparr>"
  let ?m = "''Changed completion status for task '' @ string_of_nat tid"
  let ?s1 = "messages_success (save_task s ?t1) ?m"
  have i: "task_id t = tid" using assms(3) by (rule get_object_Some_id)
  have r1: "task_detail env req tid s = (?s1, Inr (Redirect (TaskDetail tid)))"
    using assms by (rule task_detail_toggle)
  have g1: "get_object (tasks ?s1) tid = Some ?t1"
    using get_object_save_task [OF assms(3), of ?t1] i by (simp add: messages_success_def)
  have c1: "user_can_read_task env ?t1 (req_user req)"
    using assms(4) by (simp add: user_can_read_task_def)
  have r2: "task_detail env req tid ?s1 =
              (messages_success (save_task ?s1 (?t1\<lparr>completed := \<not> completed ?t1\<rparr>)) ?m,
               Inr (Redirect (TaskDetail tid)))"
    using assms(1,2) g1 c1 assms(5-8) by (rule task_detail_toggle)
  have flip2: "?t1\<lparr>completed := \<not> completed ?t1\<rparr> = t" by simp
  have g2: "get_object (tasks (save_task ?s1 t)) tid = Some t"
    using get_object_save_task [OF g1, of t] i by simp
  show ?thesis
    using r1 r2 g1 g2 toggle_found [OF assms(3)] toggle_found [OF g1]
    by (simp add: Let_def flip2 messages_success_def)
qed

theorem toggle_twice_restores_and_reports_changed_witness:
  "get_object (tasks ex_store) 1 = Some (ex_task 1)
   \<and> truthy (qd_get (POST (ex_req member [(''toggle_done'', ''1'')] [])) ''toggle_done'')
   \<and> get_object (tasks (fst (task_detail ex_env (ex_req member [(''toggle_done'', ''1'')] []) 1
        (fst (task_detail ex_env (ex_req member [(''toggle_done'', ''1'')] []) 1 ex_store))))) 1
      = Some (ex_task 1)"
  using toggle_twice_restores_and_reports_changed [of
      "ex_req member [(''toggle_done'', ''1'')] []" ex_env ex_store 1 "ex_task 1"]
  by (simp add: ex_defs get_object_def staff_check_def user_can_read_task_def Let_def)

text \<open>
  C9 as stated fails in its second half: the second toggle does not report "no change".
\<close>

theorem second_toggle_reports_changed_counterexample:
  "snd (toggle_task_completed (fst (toggle_task_completed ex_store 1)) 1)
   \<and> messages (fst (task_detail ex_env (ex_req member [(''toggle_done'', ''1'')] []) 1
        (fst (task_detail ex_env (ex_req member [(''toggle_done'', ''1'')] []) 1 ex_store)))) =
      [''Changed completion status for task 1'', ''Changed completion status for task 1'']"
  by (simp add: ex_defs get_object_def staff_check_def user_can_read_task_def task_detail_def
        handle_add_comment_def toggle_task_completed_def save_task_def messages_success_def
        Let_def string_of_nat.simps [of "Suc 0"] digit_char_def)

section \<open>A merged task stays stored, marked and readable\<close>




end
